theory Spec2Isabelle
  imports Main "HOL-Library.Sublist"
begin

section \<open>Deferred symbol resolution of the click package\<close>

text \<open>
  The theory embeds \<^verbatim>\<open>src/click/__init__.py\<close>: the two registries
  \<^verbatim>\<open>_lazy_imports\<close> and \<^verbatim>\<open>_deprecated_imports\<close>, the export list
  \<^verbatim>\<open>__all__\<close> and the module-level hook \<^verbatim>\<open>__getattr__\<close>.
  Isabelle identifiers cannot start with an underscore, so the source names lose their
  leading underscores: \<^verbatim>\<open>_lazy_imports\<close> is \<open>lazy_imports\<close>,
  \<^verbatim>\<open>__all__\<close> is \<open>dunder_all\<close>, \<^verbatim>\<open>__getattr__\<close> is
  \<open>dunder_getattr\<close>.
\<close>

subsection \<open>Python values, exceptions and dictionaries\<close>

text \<open>
  A Python object is known by its identity: \<open>Obj i\<close> is the object with identity
  \<open>i\<close>, and equality of \<open>obj\<close> values is Python's \<^verbatim>\<open>is\<close>.
\<close>

datatype obj = Obj nat

text \<open>
  An exception is its class name and its message (\<^verbatim>\<open>str(e)\<close>);
  \<^verbatim>\<open>AttributeError(name)\<close> has the message \<^verbatim>\<open>name\<close>.
\<close>

datatype exn = Exn (exn_class: string) (exn_message: string)

abbreviation AttributeError :: "string \<Rightarrow> exn" where
  "AttributeError msg \<equiv> Exn ''AttributeError'' msg"

datatype warning_category = DeprecationWarning | UserWarning

text \<open>
  A dictionary display \<^verbatim>\<open>{k1: v1, k2: v2, ...}\<close> is kept as the list of its
  items in source order, so that a repeated key stays visible. Python evaluates the
  display left to right and a later item overwrites an earlier one with the same key:
  the dictionary it builds is \<open>dict_of\<close> of the item list.
\<close>

definition dict_of :: "('k \<times> 'v) list \<Rightarrow> 'k \<rightharpoonup> 'v" where
  "dict_of items = map_of (rev items)"

text \<open>Python's \<^verbatim>\<open>sub in s\<close> on strings: \<open>sub\<close> occurs in \<open>s\<close> as a contiguous run.\<close>

fun str_contains :: "string \<Rightarrow> string \<Rightarrow> bool" where
  "str_contains sub [] = (sub = [])"
| "str_contains sub (c # cs) = (prefix sub (c # cs) \<or> str_contains sub cs)"

subsection \<open>The registries\<close>

definition lazy_imports :: "(string \<times> string \<times> string) list" where
  "lazy_imports = [
    (''Argument'', ''.core'', ''Argument''),
    (''Command'', ''.core'', ''Command''),
    (''CommandCollection'', ''.core'', ''CommandCollection''),
    (''Context'', ''.core'', ''Context''),
    (''Group'', ''.core'', ''Group''),
    (''Option'', ''.core'', ''Option''),
    (''Parameter'', ''.core'', ''Parameter''),
    (''argument'', ''.decorators'', ''argument''),
    (''command'', ''.decorators'', ''command''),
    (''confirmation_option'', ''.decorators'', ''confirmation_option''),
    (''group'', ''.decorators'', ''group''),
    (''help_option'', ''.decorators'', ''help_option''),
    (''make_pass_decorator'', ''.decorators'', ''make_pass_decorator''),
    (''option'', ''.decorators'', ''option''),
    (''pass_context'', ''.decorators'', ''pass_context''),
    (''pass_obj'', ''.decorators'', ''pass_obj''),
    (''password_option'', ''.decorators'', ''password_option''),
    (''version_option'', ''.decorators'', ''version_option''),
    (''Abort'', ''.exceptions'', ''Abort''),
    (''BadArgumentUsage'', ''.exceptions'', ''BadArgumentUsage''),
    (''BadOptionUsage'', ''.exceptions'', ''BadOptionUsage''),
    (''BadParameter'', ''.exceptions'', ''BadParameter''),
    (''ClickException'', ''.exceptions'', ''ClickException''),
    (''FileError'', ''.exceptions'', ''FileError''),
    (''MissingParameter'', ''.exceptions'', ''MissingParameter''),
    (''NoSuchOption'', ''.exceptions'', ''NoSuchOption''),
    (''UsageError'', ''.exceptions'', ''UsageError''),
    (''HelpFormatter'', ''.formatting'', ''HelpFormatter''),
    (''wrap_text'', ''.formatting'', ''wrap_text''),
    (''get_current_context'', ''.globals'', ''get_current_context''),
    (''clear'', ''.termui'', ''clear''),
    (''confirm'', ''.termui'', ''confirm''),
    (''echo_via_pager'', ''.termui'', ''echo_via_pager''),
    (''edit'', ''.termui'', ''edit''),
    (''getchar'', ''.termui'', ''getchar''),
    (''launch'', ''.termui'', ''launch''),
    (''pause'', ''.termui'', ''pause''),
    (''progressbar'', ''.termui'', ''progressbar''),
    (''prompt'', ''.termui'', ''prompt''),
    (''secho'', ''.termui'', ''secho''),
    (''style'', ''.termui'', ''style''),
    (''unstyle'', ''.termui'', ''unstyle''),
    (''BOOL'', ''.types'', ''BOOL''),
    (''Choice'', ''.types'', ''Choice''),
    (''DateTime'', ''.types'', ''DateTime''),
    (''File'', ''.types'', ''File''),
    (''FLOAT'', ''.types'', ''FLOAT''),
    (''FloatRange'', ''.types'', ''FloatRange''),
    (''INT'', ''.types'', ''INT''),
    (''IntRange'', ''.types'', ''IntRange''),
    (''ParamType'', ''.types'', ''ParamType''),
    (''Path'', ''.types'', ''Path''),
    (''STRING'', ''.types'', ''STRING''),
    (''Tuple'', ''.types'', ''Tuple''),
    (''UNPROCESSED'', ''.types'', ''UNPROCESSED''),
    (''UUID'', ''.types'', ''UUID''),
    (''echo'', ''.utils'', ''echo''),
    (''format_filename'', ''.utils'', ''format_filename''),
    (''get_app_dir'', ''.utils'', ''get_app_dir''),
    (''get_binary_stream'', ''.utils'', ''get_binary_stream''),
    (''get_text_stream'', ''.utils'', ''get_text_stream''),
    (''open_file'', ''.utils'', ''open_file'')]"

text \<open>
  The items are (name, (module, actual name, warning message)); each message is
  written in the source as two adjacent string literals, which Python concatenates.
\<close>

definition deprecated_imports :: "(string \<times> string \<times> string \<times> string) list" where
  "deprecated_imports = [
    (''BaseCommand'', ''.core'', ''_BaseCommand'',
       '''BaseCommand' is deprecated and will be removed in Click 9.0. Use''
       @ '' 'Command' instead.''),
    (''MultiCommand'', ''.core'', ''_MultiCommand'',
       '''MultiCommand' is deprecated and will be removed in Click 9.0. Use''
       @ '' 'Group' instead.''),
    (''OptionParser'', ''.parser'', ''_OptionParser'',
       '''OptionParser' is deprecated and will be removed in Click 9.0. The''
       @ '' old parser is available in 'optparse'.'')]"

definition dunder_all :: "string list" where
  "dunder_all = [
    ''Argument'',
    ''Command'',
    ''CommandCollection'',
    ''Context'',
    ''Group'',
    ''Option'',
    ''Parameter'',
    ''argument'',
    ''command'',
    ''confirmation_option'',
    ''group'',
    ''help_option'',
    ''make_pass_decorator'',
    ''option'',
    ''pass_context'',
    ''pass_obj'',
    ''password_option'',
    ''version_option'',
    ''Abort'',
    ''BadArgumentUsage'',
    ''BadOptionUsage'',
    ''BadParameter'',
    ''ClickException'',
    ''FileError'',
    ''MissingParameter'',
    ''NoSuchOption'',
    ''UsageError'',
    ''HelpFormatter'',
    ''wrap_text'',
    ''get_current_context'',
    ''clear'',
    ''confirm'',
    ''echo_via_pager'',
    ''edit'',
    ''getchar'',
    ''launch'',
    ''pause'',
    ''progressbar'',
    ''prompt'',
    ''secho'',
    ''style'',
    ''unstyle'',
    ''BOOL'',
    ''Choice'',
    ''DateTime'',
    ''File'',
    ''FLOAT'',
    ''FloatRange'',
    ''INT'',
    ''IntRange'',
    ''ParamType'',
    ''Path'',
    ''STRING'',
    ''Tuple'',
    ''UNPROCESSED'',
    ''UUID'',
    ''echo'',
    ''format_filename'',
    ''get_app_dir'',
    ''get_binary_stream'',
    ''get_text_stream'',
    ''open_file'']"

text \<open>
  The message of the \<^verbatim>\<open>__version__\<close> branch (three adjacent literals in the
  source).
\<close>

definition version_msg :: string where
  "version_msg =
     ''The '__version__' attribute is deprecated and will be removed in''
     @ '' Click 9.1. Use feature detection or''
     @ '' 'importlib.metadata.version(\"click\")' instead.''"

subsection \<open>The host environment\<close>

text \<open>
  \<^verbatim>\<open>__getattr__\<close> calls four facilities of the Python runtime:
  \<^verbatim>\<open>importlib.import_module(name, package)\<close>, the builtin
  \<^verbatim>\<open>getattr(module, attr)\<close>, \<^verbatim>\<open>warnings.warn(msg, category, stacklevel)\<close>
  and \<^verbatim>\<open>importlib.metadata.version(dist)\<close>. None of them is code of the package,
  so they are parameters of the model. Each one reads and changes a host state \<open>'h\<close>
  (the module table, the warning filters and registry, the installed distributions) and
  either returns or raises; \<open>warn\<close> returns nothing, so its result is the exception
  it raised, if any (a warning filter with action \<^verbatim>\<open>error\<close> turns the warning into
  an exception). \<open>package\<close> is the value of the module global \<^verbatim>\<open>__package__\<close>.
  The statements \<^verbatim>\<open>import importlib\<close>, \<^verbatim>\<open>import warnings\<close> and
  \<^verbatim>\<open>import importlib.metadata\<close> inside the function load standard-library
  modules and are taken to succeed.
\<close>

record 'h host =
  package :: string
  import_module :: "string \<Rightarrow> string \<Rightarrow> 'h \<Rightarrow> (exn + obj) \<times> 'h"
  getattr :: "obj \<Rightarrow> string \<Rightarrow> 'h \<Rightarrow> (exn + obj) \<times> 'h"
  warn :: "string \<Rightarrow> warning_category \<Rightarrow> nat \<Rightarrow> 'h \<Rightarrow> exn option \<times> 'h"
  metadata_version :: "string \<Rightarrow> 'h \<Rightarrow> (exn + obj) \<times> 'h"

text \<open>The calls the function makes to the host, in the order it makes them.\<close>

datatype event =
    ImportModule string string
  | GetAttr obj string
  | Warn string warning_category nat
  | MetadataVersion string

text \<open>
  The state the function runs in: \<open>globals\<close> is the package's namespace
  (\<^verbatim>\<open>globals()\<close>, the module's \<^verbatim>\<open>__dict__\<close>), which the function writes with
  \<^verbatim>\<open>globals()[name] = value\<close>; \<open>host_st\<close> is the state of the host;
  \<open>trace\<close> is the list of host calls made so far, oldest first. The host state and
  the namespace are separate components: the model has the namespace written by
  \<^verbatim>\<open>__getattr__\<close> only.
\<close>

record 'h state =
  globals :: "string \<rightharpoonup> obj"
  host_st :: "'h"
  trace :: "event list"

definition call_import_module ::
  "'h host \<Rightarrow> string \<Rightarrow> string \<Rightarrow> 'h state \<Rightarrow> (exn + obj) \<times> 'h state" where
  "call_import_module H module_name pkg s =
     (case import_module H module_name pkg (host_st s) of
        (r, h) \<Rightarrow> (r, s\<lparr>host_st := h, trace := trace s @ [ImportModule module_name pkg]\<rparr>))"

definition call_getattr ::
  "'h host \<Rightarrow> obj \<Rightarrow> string \<Rightarrow> 'h state \<Rightarrow> (exn + obj) \<times> 'h state" where
  "call_getattr H module attr_name s =
     (case getattr H module attr_name (host_st s) of
        (r, h) \<Rightarrow> (r, s\<lparr>host_st := h, trace := trace s @ [GetAttr module attr_name]\<rparr>))"

definition call_warn ::
  "'h host \<Rightarrow> string \<Rightarrow> warning_category \<Rightarrow> nat \<Rightarrow> 'h state \<Rightarrow> exn option \<times> 'h state" where
  "call_warn H msg category stacklevel s =
     (case warn H msg category stacklevel (host_st s) of
        (r, h) \<Rightarrow> (r, s\<lparr>host_st := h, trace := trace s @ [Warn msg category stacklevel]\<rparr>))"

definition call_metadata_version ::
  "'h host \<Rightarrow> string \<Rightarrow> 'h state \<Rightarrow> (exn + obj) \<times> 'h state" where
  "call_metadata_version H dist s =
     (case metadata_version H dist (host_st s) of
        (r, h) \<Rightarrow> (r, s\<lparr>host_st := h, trace := trace s @ [MetadataVersion dist]\<rparr>))"

subsection \<open>The resolver\<close>

text \<open>
  \<^verbatim>\<open>__getattr__(name)\<close>, branch by branch. \<open>Inl\<close> is a raised exception, \<open>Inr\<close>
  the returned object. An exception raised by a host call leaves the function at that
  call: the function has no \<^verbatim>\<open>try\<close>.
\<close>

definition dunder_getattr :: "'h host \<Rightarrow> string \<Rightarrow> 'h state \<Rightarrow> (exn + obj) \<times> 'h state" where
  "dunder_getattr H name s =
     (case dict_of lazy_imports name of
        Some (module_name, attr_name) \<Rightarrow>
          (case call_import_module H module_name (package H) s of
             (Inl e, s1) \<Rightarrow> (Inl e, s1)
           | (Inr module, s1) \<Rightarrow>
               (case call_getattr H module attr_name s1 of
                  (Inl e, s2) \<Rightarrow> (Inl e, s2)
                | (Inr val, s2) \<Rightarrow> (Inr val, s2\<lparr>globals := (globals s2)(name \<mapsto> val)\<rparr>)))
      | None \<Rightarrow>
          (case dict_of deprecated_imports name of
             Some (module_name, attr_name, warning_msg) \<Rightarrow>
               (case call_warn H warning_msg DeprecationWarning 2 s of
                  (Some e, s1) \<Rightarrow> (Inl e, s1)
                | (None, s1) \<Rightarrow>
                    (case call_import_module H module_name (package H) s1 of
                       (Inl e, s2) \<Rightarrow> (Inl e, s2)
                     | (Inr module, s2) \<Rightarrow> call_getattr H module attr_name s2))
           | None \<Rightarrow>
               if name = ''__version__'' then
                 (case call_warn H version_msg DeprecationWarning 2 s of
                    (Some e, s1) \<Rightarrow> (Inl e, s1)
                  | (None, s1) \<Rightarrow> call_metadata_version H ''click'' s1)
               else (Inl (AttributeError name), s)))"

text \<open>
  Attribute access on the package, \<^verbatim>\<open>click.name\<close>, as the runtime performs it for a
  module that defines \<^verbatim>\<open>__getattr__\<close>: the name is looked up in the module's
  namespace first, and the hook is called only when the name is not bound there.
  (Attributes that every module object has through its type, such as
  \<^verbatim>\<open>__class__\<close>, are outside the model.) This lookup is the cache check: the hook
  itself never reads \<open>globals\<close>.
\<close>

definition module_attr :: "'h host \<Rightarrow> string \<Rightarrow> 'h state \<Rightarrow> (exn + obj) \<times> 'h state" where
  "module_attr H name s =
     (case globals s name of
        Some val \<Rightarrow> (Inr val, s)
      | None \<Rightarrow> dunder_getattr H name s)"

text \<open>
  A consumer accessing the names \<open>names\<close> one after the other, going on after an
  access that raised.
\<close>

fun run :: "'h host \<Rightarrow> string list \<Rightarrow> 'h state \<Rightarrow> 'h state" where
  "run H [] s = s"
| "run H (name # names) s = run H names (snd (module_attr H name s))"

text \<open>The host calls made between the state \<open>s\<close> and the later state \<open>s'\<close>.\<close>

definition new_events :: "'h state \<Rightarrow> 'h state \<Rightarrow> event list" where
  "new_events s s' = drop (length (trace s)) (trace s')"

fun is_warn :: "event \<Rightarrow> bool" where
  "is_warn (Warn msg category stacklevel) = True"
| "is_warn ev = False"

fun is_import :: "event \<Rightarrow> bool" where
  "is_import (ImportModule module_name pkg) = True"
| "is_import ev = False"

text \<open>
  The frame a warning is attributed to. \<open>stack\<close> is the call stack at the call of
  \<^verbatim>\<open>warnings.warn\<close>, the calling function's frame first; \<^verbatim>\<open>stacklevel=1\<close> is
  that function, \<^verbatim>\<open>stacklevel=2\<close> its caller, and so on.
\<close>

datatype frame = Frame string

definition warn_frame :: "frame list \<Rightarrow> nat \<Rightarrow> frame option" where
  "warn_frame stack stacklevel =
     (if 1 \<le> stacklevel \<and> stacklevel \<le> length stack
      then Some (stack ! (stacklevel - 1)) else None)"

text \<open>
  What each deprecation message names as the replacement (\<open>Use 'Command' instead\<close>,
  \<open>Use 'Group' instead\<close>, \<open>available in 'optparse'\<close>); the registry has no field
  for it.
\<close>

definition replacements :: "(string \<times> string) list" where
  "replacements = [
    (''BaseCommand'', ''Command''),
    (''MultiCommand'', ''Group''),
    (''OptionParser'', ''optparse'')]"

subsection \<open>Two concrete hosts\<close>

text \<open>
  A host in which the units \<^verbatim>\<open>click.core\<close> and \<^verbatim>\<open>click.decorators\<close> load and
  every other unit is missing. Its state is the list of the units loaded so far.
\<close>

definition sample_import :: "string \<Rightarrow> string \<Rightarrow> string list \<Rightarrow> (exn + obj) \<times> string list" where
  "sample_import module_name pkg h =
     (if pkg = ''click'' \<and> module_name = ''.core'' then (Inr (Obj 1), List.insert ''click.core'' h)
      else if pkg = ''click'' \<and> module_name = ''.decorators''
        then (Inr (Obj 2), List.insert ''click.decorators'' h)
      else (Inl (Exn ''ModuleNotFoundError'' (''No module named '' @ module_name)), h))"

definition sample_getattr :: "obj \<Rightarrow> string \<Rightarrow> string list \<Rightarrow> (exn + obj) \<times> string list" where
  "sample_getattr module attr_name h =
     (if module = Obj 1 \<and> attr_name = ''Command'' then (Inr (Obj 10), h)
      else if module = Obj 1 \<and> attr_name = ''_BaseCommand'' then (Inr (Obj 11), h)
      else if module = Obj 2 \<and> attr_name = ''command'' then (Inr (Obj 20), h)
      else (Inl (AttributeError attr_name), h))"

definition sample_host :: "string list host" where
  "sample_host = \<lparr>
     package = ''click'',
     import_module = sample_import,
     getattr = sample_getattr,
     warn = (\<lambda>msg category stacklevel h. (None, h)),
     metadata_version = (\<lambda>dist h.
       if dist = ''click'' then (Inr (Obj 100), h)
       else (Inl (Exn ''PackageNotFoundError'' dist), h))\<rparr>"

definition s0 :: "string list state" where
  "s0 = \<lparr>globals = Map.empty, host_st = [], trace = []\<rparr>"

section \<open>The registries and the export list\<close>

lemma lazy_keys: "map fst lazy_imports = dunder_all"
  by (simp add: lazy_imports_def dunder_all_def)

lemma deprecated_keys:
  "map fst deprecated_imports = [''BaseCommand'', ''MultiCommand'', ''OptionParser'']"
  by (simp add: deprecated_imports_def)

lemma distinct_dunder_all: "distinct dunder_all"
  unfolding dunder_all_def by simp

lemma dict_of_None_iff: "dict_of items k = None \<longleftrightarrow> k \<notin> set (map fst items)"
  by (simp add: dict_of_def map_of_eq_None_iff)

lemma dom_dict_of: "dom (dict_of items) = set (map fst items)"
  by (simp add: dict_of_def dom_map_of_conv_image_fst)

lemma distinct_lazy_keys: "distinct (map fst lazy_imports)"
  by (simp only: lazy_keys distinct_dunder_all)

lemma distinct_deprecated_keys: "distinct (map fst deprecated_imports)"
  by (simp add: deprecated_keys)

lemma keys_disjoint: "set (map fst lazy_imports) \<inter> set (map fst deprecated_imports) = {}"
  unfolding lazy_keys deprecated_keys dunder_all_def by simp

text \<open>
  Claim C4. The export list \<^verbatim>\<open>__all__\<close> and the key set of \<^verbatim>\<open>_lazy_imports\<close>
  are the same set of names; the list even names the keys in the order of the
  dictionary display.
\<close>

theorem all_equals_lazy_keys:
  "set dunder_all = dom (dict_of lazy_imports) \<and> dunder_all = map fst lazy_imports"
  by (simp add: dom_dict_of lazy_keys)

text \<open>
  Claim C6. No name is a key of both \<^verbatim>\<open>_lazy_imports\<close> and
  \<^verbatim>\<open>_deprecated_imports\<close>, and neither dictionary display writes a key twice.
\<close>

theorem registries_disjoint:
  "dom (dict_of lazy_imports) \<inter> dom (dict_of deprecated_imports) = {}
   \<and> distinct (map fst lazy_imports) \<and> distinct (map fst deprecated_imports)"
  by (simp only: dom_dict_of keys_disjoint distinct_lazy_keys distinct_deprecated_keys simp_thms)

lemma deprecated_not_lazy:
  "dict_of deprecated_imports name = Some e \<Longrightarrow> dict_of lazy_imports name = None"
proof -
  assume "dict_of deprecated_imports name = Some e"
  then have "name \<in> dom (dict_of deprecated_imports)" by blast
  then have "name \<in> set (map fst deprecated_imports)" by (simp only: dom_dict_of)
  with keys_disjoint have "name \<notin> set (map fst lazy_imports)" by blast
  then show ?thesis by (simp add: dict_of_None_iff)
qed

lemma version_not_lazy: "dict_of lazy_imports ''__version__'' = None"
  unfolding dict_of_None_iff lazy_keys dunder_all_def by simp

lemma version_not_deprecated: "dict_of deprecated_imports ''__version__'' = None"
  unfolding dict_of_None_iff deprecated_keys by simp

end
